theory Spec2Isabelle
  imports Main "HOL-Library.Word"
begin

unbundle bit_operations_syntax

section \<open>Values crossing the C boundary of \<open>Modules/functions.c\<close>\<close>

text \<open>
  The two functions of interest, \<open>l_ldap_str2dn\<close> and \<open>l_ldap_dn2str\<close>, are CPython
  extension functions: they receive Python objects, call the directory library
  (\<open>ldap_bv2dn\<close>, \<open>ldap_dn2bv\<close>) and hand Python objects back.  Python objects are
  modelled by the kinds of object the two functions distinguish.  A Python \<open>str\<close> is kept
  as its UTF-8 bytes.  \<open>PyIterator xs\<close> is a one-shot iterator (a generator, say) that
  will still yield \<open>xs\<close>; iterators are finite and do not raise.
\<close>

datatype pyobj =
    PyNone
  | PyLong int
  | PyFloat
  | PyUnicode string
  | PyBytes string
  | PyList "pyobj list"
  | PyTuple "pyobj list"
  | PyIterator "pyobj list"

text \<open>
  The exceptions the two functions leave behind.  \<open>ArgumentError fname\<close> stands for the
  \<open>TypeError\<close> or \<open>OverflowError\<close> that \<open>PyArg_ParseTuple\<close> sets for the function named after
  the colon of its format string; its text is CPython's.  \<open>TypeError msg\<close> is the one the
  source sets itself with \<open>PyErr_SetString(PyExc_TypeError, msg)\<close>.
\<close>

datatype pyerr =
    ArgumentError string
  | TypeError string
  | UnicodeError
  | MemoryError
  | LDAPError int

text \<open>
  C leaves some executions without a meaning.  The model stops such an execution where
  it goes wrong and says why.
\<close>

datatype ub =
    NullDereference
  | UninitialisedRead
  | OutOfBoundsWrite
  | OutOfBoundsRead

text \<open>
  How a call ends: it returns an object, it returns \<open>NULL\<close> with an exception set, or it
  reaches undefined behaviour (the exception indicator of that moment is kept).
\<close>

datatype 'a outcome =
    Return 'a
  | Raise pyerr
  | Undefined ub "pyerr option"

fun raised :: "'a outcome \<Rightarrow> pyerr option" where
  "raised (Return v) = None"
| "raised (Raise e) = Some e"
| "raised (Undefined u p) = p"

type_synonym cint = "32 word"

record berval =
  bv_len :: nat
  bv_val :: "string option"

record LDAPAVA =
  la_attr :: berval
  la_value :: berval
  la_flags :: cint

text \<open>
  An \<open>LDAPRDN\<close> is a \<open>NULL\<close>-terminated array of pointers to \<open>LDAPAVA\<close>, an \<open>LDAPDN\<close> a
  \<open>NULL\<close>-terminated array of \<open>LDAPRDN\<close>; the loops of \<open>l_ldap_str2dn\<close> walk them that way
  (\<open>for (i = 0; dn[i]; i++)\<close>, \<open>for (j = 0; rdn[j]; j++)\<close>).  A well-formed one is the list
  of its entries; the pointer itself may be \<open>NULL\<close>.
\<close>

type_synonym LDAPRDN = "LDAPAVA list"
type_synonym LDAPDN = "LDAPRDN list"

text \<open>
  The builder fills such arrays by hand.  A slot of a \<open>malloc\<close>ed array is indeterminate
  until written, holds \<open>NULL\<close>, or points to something; the array has as many slots as
  were asked for and no more.  These are the arrays as they stand in memory.
\<close>

datatype 'a cell = Uninit | Null | Ptr 'a

type_synonym rdn_array = "LDAPAVA cell list"
type_synonym dn_array = "rdn_array cell list"

text \<open>
  What \<open>functions.c\<close> takes from headers and modules that are not part of it: the two
  engine entry points of the directory library, the converter of \<open>berval.c\<close>, and the two
  ownership bits of \<open>ldap.h\<close>.  An engine call yields \<open>Inl res\<close> for a result code other than
  \<open>LDAP_SUCCESS\<close> and \<open>Inr\<close> of its output otherwise.  \<open>ldap_dn2bv\<close> is handed the
  arrays of the builder as they stand; how far it reads them is its own affair, and a
  call that reads what it must not goes wrong (the outer \<open>Inl\<close>).  Every statement about
  the wrappers that names no particular engine holds for all of them.
\<close>

record libs =
  ldap_bv2dn :: "berval \<Rightarrow> cint \<Rightarrow> int + LDAPDN option"
  ldap_dn2bv :: "dn_array \<Rightarrow> cint \<Rightarrow> ub + (int + string)"
  LDAPberval_to_unicode_object :: "berval \<Rightarrow> pyerr + pyobj"
  LDAP_AVA_FREE_ATTR :: cint
  LDAP_AVA_FREE_VALUE :: cint

definition LDAPerr :: "int \<Rightarrow> pyerr" where
  \<comment> \<open>Modelled from the spec: \<open>LDAPerr\<close> lives in \<open>constants.c\<close>; the spec has the failure
      reported as a typed error carrying the engine's diagnostic code.\<close>
  "LDAPerr res = LDAPError res"

section \<open>Argument parsing\<close>

text \<open>
  \<open>PyArg_ParseTuple(args, "z#|i:str2dn", &str.bv_val, &str_len, &flags)\<close>: one or two
  arguments; the first a \<open>str\<close>, a bytes object or \<open>None\<close> (then the pointer is \<open>NULL\<close> and
  the length 0), the optional second an integer that fits a C \<open>int\<close>.  \<open>flags\<close> keeps its
  initial value 0 when the second argument is absent.
\<close>

fun arg_z_hash :: "string \<Rightarrow> pyobj \<Rightarrow> pyerr + berval" where
  "arg_z_hash fname (PyUnicode s) = Inr \<lparr>bv_len = length s, bv_val = Some s\<rparr>"
| "arg_z_hash fname (PyBytes s) = Inr \<lparr>bv_len = length s, bv_val = Some s\<rparr>"
| "arg_z_hash fname PyNone = Inr \<lparr>bv_len = 0, bv_val = None\<rparr>"
| "arg_z_hash fname other = Inl (ArgumentError fname)"

fun arg_i :: "string \<Rightarrow> pyobj \<Rightarrow> pyerr + cint" where
  "arg_i fname (PyLong n) =
     (if - (2 ^ 31) \<le> n \<and> n < 2 ^ 31 then Inr (word_of_int n) else Inl (ArgumentError fname))"
| "arg_i fname other = Inl (ArgumentError fname)"

fun PyArg_ParseTuple_str2dn :: "pyobj list \<Rightarrow> pyerr + berval \<times> cint" where
  "PyArg_ParseTuple_str2dn [s] =
     (case arg_z_hash ''str2dn'' s of Inl e \<Rightarrow> Inl e | Inr str \<Rightarrow> Inr (str, 0))"
| "PyArg_ParseTuple_str2dn [s, f] =
     (case arg_z_hash ''str2dn'' s of
        Inl e \<Rightarrow> Inl e
      | Inr str \<Rightarrow> (case arg_i ''str2dn'' f of Inl e \<Rightarrow> Inl e | Inr flags \<Rightarrow> Inr (str, flags)))"
| "PyArg_ParseTuple_str2dn args = Inl (ArgumentError ''str2dn'')"

text \<open>\<open>PyArg_ParseTuple(args, "Oi:dn2str", &dn_list, &flags)\<close>: exactly two arguments.\<close>

fun PyArg_ParseTuple_dn2str :: "pyobj list \<Rightarrow> pyerr + pyobj \<times> cint" where
  "PyArg_ParseTuple_dn2str [dn_list, f] =
     (case arg_i ''dn2str'' f of Inl e \<Rightarrow> Inl e | Inr flags \<Rightarrow> Inr (dn_list, flags))"
| "PyArg_ParseTuple_dn2str args = Inl (ArgumentError ''dn2str'')"

section \<open>\<open>l_ldap_str2dn\<close>\<close>

text \<open>
  The interpreter may run out of memory: \<open>PyList_New\<close>, \<open>PyList_Append\<close> and
  \<open>Py_BuildValue\<close> can each fail, and the source tests every one of them.  The budget is
  the number of such requests that will still succeed.
\<close>

definition py_alloc :: "nat \<Rightarrow> nat option" where
  "py_alloc budget = (if budget = 0 then None else Some (budget - 1))"

definition PyList_New :: "nat \<Rightarrow> (pyobj list \<times> nat) option" where
  "PyList_New budget = map_option (\<lambda>b. ([], b)) (py_alloc budget)"

definition PyList_Append :: "pyobj list \<Rightarrow> pyobj \<Rightarrow> nat \<Rightarrow> (pyobj list \<times> nat) option" where
  "PyList_Append xs x budget = map_option (\<lambda>b. (xs @ [x], b)) (py_alloc budget)"

text \<open>
  \<open>Py_BuildValue("(O&O&i)", LDAPberval_to_unicode_object, &ava->la_attr,
  LDAPberval_to_unicode_object, &ava->la_value, ava->la_flags & ~(LDAP_AVA_FREE_ATTR |
  LDAP_AVA_FREE_VALUE))\<close>: the converters run left to right, the masked flags are read as
  a C \<open>int\<close>, then the tuple is allocated.
\<close>

definition public_flags :: "libs \<Rightarrow> cint \<Rightarrow> cint" where
  "public_flags L f = f AND NOT (LDAP_AVA_FREE_ATTR L OR LDAP_AVA_FREE_VALUE L)"

definition Py_BuildValue_ava :: "libs \<Rightarrow> LDAPAVA \<Rightarrow> nat \<Rightarrow> pyerr + pyobj \<times> nat" where
  "Py_BuildValue_ava L ava budget =
     (case LDAPberval_to_unicode_object L (la_attr ava) of
        Inl e \<Rightarrow> Inl e
      | Inr a \<Rightarrow>
          (case LDAPberval_to_unicode_object L (la_value ava) of
             Inl e \<Rightarrow> Inl e
           | Inr v \<Rightarrow>
               (case py_alloc budget of
                  None \<Rightarrow> Inl MemoryError
                | Some b \<Rightarrow> Inr (PyTuple [a, v, PyLong (sint (public_flags L (la_flags ava)))], b))))"

text \<open>The inner loop, lines 131 to 150: one tuple per AVA, appended to \<open>rdnlist\<close>.\<close>

fun str2dn_avas :: "libs \<Rightarrow> LDAPRDN \<Rightarrow> pyobj list \<Rightarrow> nat \<Rightarrow> pyerr + pyobj list \<times> nat" where
  "str2dn_avas L [] rdnlist budget = Inr (rdnlist, budget)"
| "str2dn_avas L (ava # rdn) rdnlist budget =
     (case Py_BuildValue_ava L ava budget of
        Inl e \<Rightarrow> Inl e
      | Inr (tuple, b1) \<Rightarrow>
          (case PyList_Append rdnlist tuple b1 of
             None \<Rightarrow> Inl MemoryError
           | Some (rdnlist', b2) \<Rightarrow> str2dn_avas L rdn rdnlist' b2))"

text \<open>
  The outer loop, lines 118 to 152.  \<open>rdnlist\<close> is appended to \<open>tmp\<close> while still empty and
  filled afterwards; \<open>tmp\<close> sees the same list object, so the model appends it filled.
\<close>

fun str2dn_rdns :: "libs \<Rightarrow> LDAPDN \<Rightarrow> pyobj list \<Rightarrow> nat \<Rightarrow> pyerr + pyobj list \<times> nat" where
  "str2dn_rdns L [] tmp budget = Inr (tmp, budget)"
| "str2dn_rdns L (rdn # dn) tmp budget =
     (case PyList_New budget of
        None \<Rightarrow> Inl MemoryError
      | Some (rdnlist, b1) \<Rightarrow>
          (case PyList_Append tmp (PyList rdnlist) b1 of
             None \<Rightarrow> Inl MemoryError
           | Some (_, b2) \<Rightarrow>
               (case str2dn_avas L rdn rdnlist b2 of
                  Inl e \<Rightarrow> Inl e
                | Inr (rdnlist', b3) \<Rightarrow> str2dn_rdns L dn (tmp @ [PyList rdnlist']) b3)))"

definition l_ldap_str2dn :: "libs \<Rightarrow> nat \<Rightarrow> pyobj list \<Rightarrow> pyobj outcome" where
  "l_ldap_str2dn L budget args =
     (case PyArg_ParseTuple_str2dn args of
        Inl e \<Rightarrow> Raise e
      | Inr (str, flags) \<Rightarrow>
          (case ldap_bv2dn L str flags of
             Inl res \<Rightarrow> Raise (LDAPerr res)
           | Inr dn \<Rightarrow>
               (case PyList_New budget of
                  None \<Rightarrow> Raise MemoryError
                | Some (tmp, b) \<Rightarrow>
                    (case dn of
                       None \<Rightarrow> Undefined NullDereference None
                     | Some rdns \<Rightarrow>
                         (case str2dn_rdns L rdns tmp b of
                            Inl e \<Rightarrow> Raise e
                          | Inr (result, _) \<Rightarrow> Return (PyList result))))))"

section \<open>\<open>l_ldap_dn2str\<close>\<close>

text \<open>
  \<open>malloc(sizeof(LDAPDN))\<close> and \<open>malloc(sizeof(LDAPRDN))\<close>: both types are pointers, so each
  request is for the size of one pointer, that is for an array of one slot.
\<close>

definition malloc_one_pointer :: "'a cell list" where
  "malloc_one_pointer = [Uninit]"

definition store :: "'a cell list \<Rightarrow> nat \<Rightarrow> 'a \<Rightarrow> ub + 'a cell list" where
  "store a i v = (if i < length a then Inr (a[i := Ptr v]) else Inl OutOfBoundsWrite)"

text \<open>The blocks obtained from \<open>malloc\<close> during a call and not handed back to \<open>free\<close>.\<close>

datatype block = DN_array | RDN_array | AVA_struct

text \<open>What a loop of the builder comes to: it ran through, it met an element of the wrong
  shape (\<open>goto failed\<close> with the \<open>TypeError\<close> set), or it went wrong.\<close>

datatype 'a progress = Filled 'a | Rejected | Faulted ub

definition type_error_message :: string where
  "type_error_message = ''expected List[Tuple[str, str, int]]''"

text \<open>
  \<open>PyObject_GetIter\<close>: lists, tuples, strings and bytes give a fresh iterator over their
  items, an iterator gives itself, the other kinds are not iterable.  Running the iterator
  of a list leaves the list as it was; running a one-shot iterator uses it up.
\<close>

fun PyObject_GetIter :: "pyobj \<Rightarrow> pyobj list option" where
  "PyObject_GetIter (PyList xs) = Some xs"
| "PyObject_GetIter (PyTuple xs) = Some xs"
| "PyObject_GetIter (PyIterator xs) = Some xs"
| "PyObject_GetIter (PyUnicode s) = Some (map (\<lambda>c. PyUnicode [c]) s)"
| "PyObject_GetIter (PyBytes s) = Some (map (\<lambda>c. PyLong (of_char c)) s)"
| "PyObject_GetIter PyNone = None"
| "PyObject_GetIter (PyLong n) = None"
| "PyObject_GetIter PyFloat = None"

fun after_iteration :: "pyobj \<Rightarrow> pyobj list \<Rightarrow> pyobj" where
  "after_iteration (PyIterator xs) rest = PyIterator rest"
| "after_iteration obj rest = obj"

text \<open>
  \<open>if (PyList_Check(x)) x = PyList_AsTuple(x); if (!PyTuple_Check(x)) ...\<close>: the items
  of a list or tuple, nothing for any other object.
\<close>

fun as_tuple :: "pyobj \<Rightarrow> pyobj list option" where
  "as_tuple (PyList xs) = Some xs"
| "as_tuple (PyTuple xs) = Some xs"
| "as_tuple other = None"

text \<open>
  \<open>.bv_len = (int)PyBytes_Size(b)\<close>: the size is cut to a C \<open>int\<close> and widened to the
  unsigned 64-bit \<open>ber_len_t\<close>.  \<open>(int)PyLong_AsLong(encoding)\<close>: a Python integer outside
  the 64-bit \<open>long\<close> makes \<open>PyLong_AsLong\<close> answer -1; the exception it leaves pending
  is never looked at by the source and is not tracked here.
\<close>

definition int_cast_len :: "nat \<Rightarrow> nat" where
  "int_cast_len n = unat (scast (word_of_nat n :: 32 word) :: 64 word)"

definition berval_of_unicode :: "string \<Rightarrow> berval" where
  "berval_of_unicode s = \<lparr>bv_len = int_cast_len (length s), bv_val = Some s\<rparr>"

definition int_of_PyLong :: "int \<Rightarrow> cint" where
  "int_of_PyLong n = (if - (2 ^ 63) \<le> n \<and> n < 2 ^ 63 then word_of_int n else - 1)"

text \<open>
  Lines 224 to 250: the three items read with \<open>PyTuple_GetItem\<close>, the checks on their
  types, and the AVA made of them.  Items after the third are never read.
\<close>

fun ava_of_tuple :: "pyobj list \<Rightarrow> LDAPAVA option" where
  "ava_of_tuple (PyUnicode type # PyUnicode val # PyLong encoding # extra) =
     Some \<lparr>la_attr = berval_of_unicode type, la_value = berval_of_unicode val,
           la_flags = int_of_PyLong encoding\<rparr>"
| "ava_of_tuple items = None"

text \<open>The inner loop, lines 210 to 254; \<open>j\<close> counts the AVAs stored so far.\<close>

fun dn2str_avas ::
  "pyobj list \<Rightarrow> nat \<Rightarrow> rdn_array \<Rightarrow> block list \<Rightarrow> rdn_array progress \<times> block list"
where
  "dn2str_avas [] j rdn live = (Filled rdn, live)"
| "dn2str_avas (next # rest) j rdn live =
     (case as_tuple next of
        None \<Rightarrow> (Rejected, live)
      | Some items \<Rightarrow>
          if length items < 3 then (Rejected, live)
          else
            (case ava_of_tuple items of
               None \<Rightarrow> (Rejected, live)
             | Some ava \<Rightarrow>
                 (case store rdn j ava of
                    Inl u \<Rightarrow> (Faulted u, live @ [AVA_struct])
                  | Inr rdn' \<Rightarrow> dn2str_avas rest (Suc j) rdn' (live @ [AVA_struct]))))"

text \<open>
  The outer loop, lines 192 to 258; \<open>i\<close> counts the RDNs stored so far.  The third
  component is what the iterator over \<open>dn_list\<close> has not yet yielded when the loop is left.
\<close>

fun dn2str_rdns ::
  "pyobj list \<Rightarrow> nat \<Rightarrow> dn_array \<Rightarrow> block list \<Rightarrow>
     dn_array progress \<times> block list \<times> pyobj list"
where
  "dn2str_rdns [] i dn live = (Filled dn, live, [])"
| "dn2str_rdns (inext # rest) i dn live =
     (case as_tuple inext of
        None \<Rightarrow> (Rejected, live, rest)
      | Some iiter \<Rightarrow>
          (case dn2str_avas iiter 0 malloc_one_pointer (live @ [RDN_array]) of
             (Rejected, live') \<Rightarrow> (Rejected, live', rest)
           | (Faulted u, live') \<Rightarrow> (Faulted u, live', rest)
           | (Filled rdn, live') \<Rightarrow>
               (case store dn i rdn of
                  Inl u \<Rightarrow> (Faulted u, live', rest)
                | Inr dn' \<Rightarrow> dn2str_rdns rest (Suc i) dn' live')))"

text \<open>\<open>PyUnicode_FromString(str.bv_val)\<close> reads a C string: it stops at the first NUL.\<close>

definition PyUnicode_FromString :: "string \<Rightarrow> nat \<Rightarrow> pyobj option" where
  "PyUnicode_FromString s budget =
     map_option (\<lambda>b. PyUnicode (takeWhile (\<lambda>c. c \<noteq> CHR 0x00) s)) (py_alloc budget)"

text \<open>
  The label \<open>failed\<close>, lines 271 to 274: \<open>Py_XDECREF(tmp)\<close>, then \<open>return result\<close>; the
  call to \<open>ldap_dnfree\<close> is commented out.  \<open>tmp\<close> is declared without a value and is
  assigned only after the engine call.
\<close>

fun failed :: "pyobj cell \<Rightarrow> pyobj outcome \<Rightarrow> pyobj outcome" where
  "failed Uninit r = Undefined UninitialisedRead (raised r)"
| "failed Null r = r"
| "failed (Ptr v) r = r"

text \<open>
  Lines 260 to 274, given what the engine answered: a call that went wrong, a result
  code handed to \<open>LDAPerr\<close> with an immediate \<open>return\<close>, or the text, made into a Python
  string and returned by way of the label \<open>failed\<close> with \<open>tmp\<close> set to \<open>NULL\<close>.
\<close>

definition after_dn2bv :: "ub + (int + string) \<Rightarrow> nat \<Rightarrow> pyobj outcome" where
  "after_dn2bv answer budget =
     (case answer of
        Inl u \<Rightarrow> Undefined u None
      | Inr (Inl res) \<Rightarrow> Raise (LDAPerr res)
      | Inr (Inr str) \<Rightarrow>
          (case PyUnicode_FromString str budget of
             None \<Rightarrow> failed Null (Raise MemoryError)
           | Some tmp \<Rightarrow> failed Null (Return tmp)))"

record dn2str_exit =
  outcome :: "pyobj outcome"
  live :: "block list"
  args_after :: "pyobj list"

definition l_ldap_dn2str :: "libs \<Rightarrow> nat \<Rightarrow> pyobj list \<Rightarrow> dn2str_exit" where
  "l_ldap_dn2str L budget args =
     (case PyArg_ParseTuple_dn2str args of
        Inl e \<Rightarrow> \<lparr>outcome = Raise e, live = [DN_array], args_after = args\<rparr>
      | Inr (dn_list, flags) \<Rightarrow>
          (case PyObject_GetIter dn_list of
             None \<Rightarrow>
               \<lparr>outcome = failed Uninit (Raise (TypeError type_error_message)),
                live = [DN_array], args_after = args\<rparr>
           | Some items \<Rightarrow>
               (case dn2str_rdns items 0 malloc_one_pointer [DN_array] of
                  (Rejected, live', rest) \<Rightarrow>
                    \<lparr>outcome = failed Uninit (Raise (TypeError type_error_message)),
                     live = live', args_after = after_iteration dn_list rest # tl args\<rparr>
                | (Faulted u, live', rest) \<Rightarrow>
                    \<lparr>outcome = Undefined u None,
                     live = live', args_after = after_iteration dn_list rest # tl args\<rparr>
                | (Filled dn, live', rest) \<Rightarrow>
                    \<lparr>outcome = after_dn2bv (ldap_dn2bv L dn flags) budget,
                     live = live', args_after = after_iteration dn_list rest # tl args\<rparr>)))"

section \<open>The syntax engine, from the specification\<close>

text \<open>
  \<open>ldap_bv2dn\<close> and \<open>ldap_dn2bv\<close> belong to the directory library and \<open>berval.c\<close> is a
  module beside \<open>functions.c\<close>.  Where a statement needs a concrete engine, one of those
  below is used.  The first follows the grammar, the escaping rules and the state machine
  of section 4 of the specification; the others differ from it in one respect each.
\<close>

definition LDAP_AVA_STRING :: cint where
  \<comment> \<open>Modelled from the spec: the default flag value \<open>F\<close> of a plain string value; the
      comment at lines 101 to 104 of the source shows it as 1.\<close>
  "LDAP_AVA_STRING = 1"

definition LDAP_AVA_BINARY :: cint where
  \<comment> \<open>Modelled from the spec: the flag of a value in binary (hex) encoding.\<close>
  "LDAP_AVA_BINARY = 2"

definition LDAP_DECODING_ERROR :: int where
  \<comment> \<open>Modelled from the spec: the engine code behind a syntax error.\<close>
  "LDAP_DECODING_ERROR = - 4"

definition is_alpha :: "char \<Rightarrow> bool" where
  "is_alpha c =
     (let n = (of_char c :: nat) in (65 \<le> n \<and> n \<le> 90) \<or> (97 \<le> n \<and> n \<le> 122))"

definition is_digit :: "char \<Rightarrow> bool" where
  "is_digit c = (let n = (of_char c :: nat) in 48 \<le> n \<and> n \<le> 57)"

definition hexval :: "char \<Rightarrow> nat option" where
  "hexval c =
     (let n = (of_char c :: nat) in
      if 48 \<le> n \<and> n \<le> 57 then Some (n - 48)
      else if 97 \<le> n \<and> n \<le> 102 then Some (n - 87)
      else if 65 \<le> n \<and> n \<le> 70 then Some (n - 55)
      else None)"

definition hexbyte :: "nat \<Rightarrow> nat \<Rightarrow> char" where
  "hexbyte hi lo = char_of (16 * hi + lo)"

text \<open>\<open>AttributeType := descriptor | numericoid\<close>.\<close>

fun descriptor :: "string \<Rightarrow> bool" where
  "descriptor [] = False"
| "descriptor (c # cs) =
     (is_alpha c \<and> list_all (\<lambda>d. is_alpha d \<or> is_digit d \<or> d = CHR ''-'') cs)"

fun numericoid :: "string \<Rightarrow> bool" where
  "numericoid [] = False"
| "numericoid [c] = is_digit c"
| "numericoid (c # d # cs) =
     (is_digit c \<and> (if d = CHR ''.'' then numericoid cs else numericoid (d # cs)))"

definition attribute_type :: "string \<Rightarrow> bool" where
  "attribute_type t = (descriptor t \<or> numericoid t)"

text \<open>The characters a backslash makes literal, and the separators.\<close>

definition special :: "char \<Rightarrow> bool" where
  "special c =
     (c \<in> {CHR '','', CHR ''+'', CHR 0x22, CHR 0x5C, CHR ''<'', CHR ''>'', CHR '';'', CHR ''='',
            CHR '' '', CHR ''#''})"

definition rdn_separator :: "char \<Rightarrow> bool" where
  "rdn_separator c = (c = CHR '','' \<or> c = CHR '';'')"

definition ava_separator :: "char \<Rightarrow> bool" where
  "ava_separator c = (c = CHR ''+'')"

text \<open>
  The states of the reader: \<open>ReadType\<close>, then after \<open>=\<close> \<open>ReadValue\<close> in its plain, quoted
  and hex variants (each with the states inside an escape), and \<open>ReadSeparator\<close> after a
  closing quote.  \<open>AtStart\<close> is the state before any input, \<open>Broken\<close> the one after a fatal
  error.  The strings carried are the attribute type and the value decoded so far.
\<close>

datatype reader =
    AtStart
  | ReadType string
  | ReadValue string
  | Plain string string
  | PlainEsc string string
  | PlainHex string string nat
  | Quoted string string
  | QuotedEsc string string
  | QuotedHex string string nat
  | ReadSeparator string string
  | Hex string string
  | HexHalf string string nat
  | Broken

definition mk_ava :: "string \<Rightarrow> string \<Rightarrow> cint \<Rightarrow> LDAPAVA" where
  "mk_ava t v f =
     \<lparr>la_attr = \<lparr>bv_len = length t, bv_val = Some t\<rparr>,
      la_value = \<lparr>bv_len = length v, bv_val = Some v\<rparr>, la_flags = f\<rparr>"

text \<open>A separator closes the AVA; \<open>+\<close> stays in the RDN, \<open>,\<close> and \<open>;\<close> close the RDN too.\<close>

definition close_ava ::
  "char \<Rightarrow> LDAPAVA \<Rightarrow> LDAPRDN \<Rightarrow> LDAPDN \<Rightarrow> reader \<times> LDAPRDN \<times> LDAPDN"
where
  "close_ava c a rdn dn =
     (if ava_separator c then (ReadType [], rdn @ [a], dn)
      else if rdn_separator c then (ReadType [], [], dn @ [rdn @ [a]])
      else (Broken, rdn, dn))"

fun read_type :: "string \<Rightarrow> char \<Rightarrow> reader" where
  "read_type t c =
     (if c = CHR ''='' then (if attribute_type t then ReadValue t else Broken)
      else ReadType (t @ [c]))"

fun read_plain :: "string \<Rightarrow> string \<Rightarrow> char \<Rightarrow> LDAPRDN \<Rightarrow> LDAPDN \<Rightarrow> reader \<times> LDAPRDN \<times> LDAPDN" where
  "read_plain t v c rdn dn =
     (if c = CHR 0x5C then (PlainEsc t v, rdn, dn)
      else if ava_separator c \<or> rdn_separator c then close_ava c (mk_ava t v LDAP_AVA_STRING) rdn dn
      else (Plain t (v @ [c]), rdn, dn))"

fun parse_step :: "reader \<times> LDAPRDN \<times> LDAPDN \<Rightarrow> char \<Rightarrow> reader \<times> LDAPRDN \<times> LDAPDN" where
  "parse_step (AtStart, rdn, dn) c = (read_type [] c, rdn, dn)"
| "parse_step (ReadType t, rdn, dn) c = (read_type t c, rdn, dn)"
| "parse_step (ReadValue t, rdn, dn) c =
     (if c = CHR 0x22 then (Quoted t [], rdn, dn)
      else if c = CHR ''#'' then (Hex t [], rdn, dn)
      else read_plain t [] c rdn dn)"
| "parse_step (Plain t v, rdn, dn) c = read_plain t v c rdn dn"
| "parse_step (PlainEsc t v, rdn, dn) c =
     (if special c then (Plain t (v @ [c]), rdn, dn)
      else (case hexval c of None \<Rightarrow> (Broken, rdn, dn) | Some h \<Rightarrow> (PlainHex t v h, rdn, dn)))"
| "parse_step (PlainHex t v h, rdn, dn) c =
     (case hexval c of None \<Rightarrow> (Broken, rdn, dn) | Some l \<Rightarrow> (Plain t (v @ [hexbyte h l]), rdn, dn))"
| "parse_step (Quoted t v, rdn, dn) c =
     (if c = CHR 0x22 then (ReadSeparator t v, rdn, dn)
      else if c = CHR 0x5C then (QuotedEsc t v, rdn, dn)
      else (Quoted t (v @ [c]), rdn, dn))"
| "parse_step (QuotedEsc t v, rdn, dn) c =
     (if special c then (Quoted t (v @ [c]), rdn, dn)
      else (case hexval c of None \<Rightarrow> (Broken, rdn, dn) | Some h \<Rightarrow> (QuotedHex t v h, rdn, dn)))"
| "parse_step (QuotedHex t v h, rdn, dn) c =
     (case hexval c of None \<Rightarrow> (Broken, rdn, dn) | Some l \<Rightarrow> (Quoted t (v @ [hexbyte h l]), rdn, dn))"
| "parse_step (ReadSeparator t v, rdn, dn) c = close_ava c (mk_ava t v LDAP_AVA_STRING) rdn dn"
| "parse_step (Hex t v, rdn, dn) c =
     (case hexval c of
        Some h \<Rightarrow> (HexHalf t v h, rdn, dn)
      | None \<Rightarrow> if v = [] then (Broken, rdn, dn) else close_ava c (mk_ava t v LDAP_AVA_BINARY) rdn dn)"
| "parse_step (HexHalf t v h, rdn, dn) c =
     (case hexval c of None \<Rightarrow> (Broken, rdn, dn) | Some l \<Rightarrow> (Hex t (v @ [hexbyte h l]), rdn, dn))"
| "parse_step (Broken, rdn, dn) c = (Broken, rdn, dn)"

text \<open>
  The accept state is reached only at the end of the input with no AVA left incomplete;
  the empty input is the empty DN, and a value may be empty.
\<close>

fun parse_end :: "reader \<times> LDAPRDN \<times> LDAPDN \<Rightarrow> LDAPDN option" where
  "parse_end (AtStart, rdn, dn) = Some []"
| "parse_end (ReadValue t, rdn, dn) = Some (dn @ [rdn @ [mk_ava t [] LDAP_AVA_STRING]])"
| "parse_end (Plain t v, rdn, dn) = Some (dn @ [rdn @ [mk_ava t v LDAP_AVA_STRING]])"
| "parse_end (ReadSeparator t v, rdn, dn) = Some (dn @ [rdn @ [mk_ava t v LDAP_AVA_STRING]])"
| "parse_end (Hex t v, rdn, dn) =
     (if v = [] then None else Some (dn @ [rdn @ [mk_ava t v LDAP_AVA_BINARY]]))"
| "parse_end (other, rdn, dn) = None"

definition parse_dn :: "string \<Rightarrow> LDAPDN option" where
  \<comment> \<open>Modelled from the spec: the reader of section 4.1, run over the whole input.\<close>
  "parse_dn s = parse_end (foldl parse_step (AtStart, [], []) s)"

definition berval_bytes :: "berval \<Rightarrow> string" where
  "berval_bytes bv = (case bv_val bv of None \<Rightarrow> [] | Some s \<Rightarrow> take (bv_len bv) s)"

definition spec_bv2dn :: "berval \<Rightarrow> cint \<Rightarrow> int + LDAPDN option" where
  \<comment> \<open>Modelled from the spec: \<open>ldap_bv2dn\<close> is the directory library's; the grammar is that
      of section 4.1, the same for every flag value.\<close>
  "spec_bv2dn bv flags =
     (case parse_dn (berval_bytes bv) of
        None \<Rightarrow> Inl LDAP_DECODING_ERROR
      | Some dn \<Rightarrow> Inr (Some dn))"

text \<open>
  Serialisation, section 4.2: each AVA as \<open>type '=' escape(value, flags)\<close>, AVAs joined
  with \<open>+\<close>, RDNs with \<open>,\<close>; a binary value is written as \<open>#\<close> and hex digits.
\<close>

definition hexdigit :: "nat \<Rightarrow> char" where
  "hexdigit n = (if n < 10 then char_of (48 + n) else char_of (87 + n))"

definition escape :: "string \<Rightarrow> cint \<Rightarrow> string" where
  \<comment> \<open>Modelled from the spec: \<open>escape\<close> of section 4.2.\<close>
  "escape v f =
     (if f AND LDAP_AVA_BINARY \<noteq> 0
      then CHR ''#'' # concat (map (\<lambda>c. [hexdigit (of_char c div 16), hexdigit (of_char c mod 16)]) v)
      else concat (map (\<lambda>c. if special c then [CHR 0x5C, c] else [c]) v))"

fun join :: "char \<Rightarrow> string list \<Rightarrow> string" where
  "join sep [] = []"
| "join sep [x] = x"
| "join sep (x # y # ys) = x @ sep # join sep (y # ys)"

definition ava2str :: "LDAPAVA \<Rightarrow> string" where
  "ava2str a =
     berval_bytes (la_attr a) @ CHR ''='' # escape (berval_bytes (la_value a)) (la_flags a)"

definition serialise_dn :: "LDAPDN \<Rightarrow> string" where
  \<comment> \<open>Modelled from the spec: the serialisation algorithm of section 4.2.\<close>
  "serialise_dn dn = join CHR '','' (map (\<lambda>rdn. join CHR ''+'' (map ava2str rdn)) dn)"

text \<open>
  An engine that serialises every RDN and every AVA has to find them: it walks each
  array up to its \<open>NULL\<close> entry, as the loops of \<open>l_ldap_str2dn\<close> do.  Reading a slot that
  was never written, or one past the end of the block, has no meaning.
\<close>

fun read_array :: "'a cell list \<Rightarrow> ub + 'a list" where
  "read_array [] = Inl OutOfBoundsRead"
| "read_array (Uninit # rest) = Inl UninitialisedRead"
| "read_array (Null # rest) = Inr []"
| "read_array (Ptr v # rest) =
     (case read_array rest of Inl u \<Rightarrow> Inl u | Inr vs \<Rightarrow> Inr (v # vs))"

fun read_dn :: "dn_array \<Rightarrow> ub + LDAPDN" where
  "read_dn [] = Inl OutOfBoundsRead"
| "read_dn (Uninit # rest) = Inl UninitialisedRead"
| "read_dn (Null # rest) = Inr []"
| "read_dn (Ptr rdn # rest) =
     (case read_array rdn of
        Inl u \<Rightarrow> Inl u
      | Inr avas \<Rightarrow> (case read_dn rest of Inl u \<Rightarrow> Inl u | Inr rdns \<Rightarrow> Inr (avas # rdns)))"

definition spec_dn2bv :: "dn_array \<Rightarrow> cint \<Rightarrow> ub + (int + string)" where
  \<comment> \<open>Modelled from the spec: \<open>ldap_dn2bv\<close> is the directory library's; section 4.2 has one
      serialisation for every flag value and no failure of its own.\<close>
  "spec_dn2bv dn flags = (case read_dn dn of Inl u \<Rightarrow> Inl u | Inr d \<Rightarrow> Inr (Inr (serialise_dn d)))"

text \<open>
  A stricter engine, for concrete runs: it looks at the first entry and answers the
  empty text for the empty DN; it has no output format for a flag value whose format
  bits (mask \<open>0xF0\<close>) are all clear and refuses such a value with the parameter error -9;
  otherwise it walks the arrays and serialises.
\<close>

definition strict_dn2bv :: "dn_array \<Rightarrow> cint \<Rightarrow> ub + (int + string)" where
  "strict_dn2bv dn flags =
     (case dn of
        [] \<Rightarrow> Inl OutOfBoundsRead
      | Uninit # rest \<Rightarrow> Inl UninitialisedRead
      | Null # rest \<Rightarrow> Inr (Inr [])
      | Ptr rdn # rest \<Rightarrow> if flags AND 0xF0 = 0 then Inr (Inl (- 9)) else spec_dn2bv dn flags)"

definition berval_to_unicode :: "berval \<Rightarrow> pyerr + pyobj" where
  \<comment> \<open>Modelled from the spec: \<open>LDAPberval_to_unicode_object\<close> lives in \<open>berval.c\<close>; the
      returned triples hold the attribute type and the decoded value as strings.\<close>
  "berval_to_unicode bv =
     (case bv_val bv of None \<Rightarrow> Inr PyNone | Some s \<Rightarrow> Inr (PyUnicode (take (bv_len bv) s)))"

text \<open>
  The collaborators put together.  The two ownership bits are given the values 0x10 and
  0x20 here; no statement about the wrappers depends on the values.
\<close>

definition spec_libs :: libs where
  "spec_libs =
     \<lparr>ldap_bv2dn = spec_bv2dn, ldap_dn2bv = spec_dn2bv,
      LDAPberval_to_unicode_object = berval_to_unicode,
      LDAP_AVA_FREE_ATTR = 0x10, LDAP_AVA_FREE_VALUE = 0x20\<rparr>"

text \<open>The same collaborators, with the stricter engine for serialising.\<close>

definition strict_libs :: libs where
  "strict_libs = spec_libs\<lparr>ldap_dn2bv := strict_dn2bv\<rparr>"

text \<open>
  The same engine, leaving both ownership marks set on every AVA it hands out, as an
  engine does that still owns the buffers of its result.
\<close>

definition marked_libs :: libs where
  "marked_libs =
     spec_libs\<lparr>ldap_bv2dn :=
       \<lambda>bv f. map_sum id (map_option (map (map (\<lambda>a. a\<lparr>la_flags := la_flags a OR 0x30\<rparr>))))
         (spec_bv2dn bv f)\<rparr>"

section \<open>Shapes of builder input and of parser output\<close>

text \<open>
  The shape the builder is meant for: an iterable of RDNs, each a list or tuple of
  triples, each triple a list or tuple that starts with a string, a string and an integer.
\<close>

fun is_triple :: "pyobj \<Rightarrow> bool" where
  "is_triple (PyTuple (PyUnicode t # PyUnicode v # PyLong e # extra)) = True"
| "is_triple (PyList (PyUnicode t # PyUnicode v # PyLong e # extra)) = True"
| "is_triple other = False"

fun is_rdn :: "pyobj \<Rightarrow> bool" where
  "is_rdn (PyTuple xs) = list_all is_triple xs"
| "is_rdn (PyList xs) = list_all is_triple xs"
| "is_rdn other = False"

definition well_shaped :: "pyobj \<Rightarrow> bool" where
  "well_shaped d = (case PyObject_GetIter d of None \<Rightarrow> False | Some items \<Rightarrow> list_all is_rdn items)"

text \<open>The same structure with every triple cut down to its first three items.\<close>

fun trim_triple :: "pyobj \<Rightarrow> pyobj" where
  "trim_triple (PyTuple xs) = PyTuple (take 3 xs)"
| "trim_triple (PyList xs) = PyList (take 3 xs)"
| "trim_triple other = other"

fun trim_rdn :: "pyobj \<Rightarrow> pyobj" where
  "trim_rdn (PyTuple xs) = PyTuple (map trim_triple xs)"
| "trim_rdn (PyList xs) = PyList (map trim_triple xs)"
| "trim_rdn other = other"

fun trim_dn :: "pyobj \<Rightarrow> pyobj" where
  "trim_dn (PyTuple xs) = PyTuple (map trim_rdn xs)"
| "trim_dn (PyList xs) = PyList (map trim_rdn xs)"
| "trim_dn (PyIterator xs) = PyIterator (map trim_rdn xs)"
| "trim_dn other = other"

text \<open>
  The shape the parser returns: a list of lists of triples whose third component is an
  integer with none of the bits of \<open>m\<close> set.
\<close>

fun ava_flags_clear :: "cint \<Rightarrow> pyobj \<Rightarrow> bool" where
  "ava_flags_clear m (PyTuple [a, v, PyLong n]) = (word_of_int n AND m = 0)"
| "ava_flags_clear m other = False"

fun rdn_flags_clear :: "cint \<Rightarrow> pyobj \<Rightarrow> bool" where
  "rdn_flags_clear m (PyList avas) = list_all (ava_flags_clear m) avas"
| "rdn_flags_clear m other = False"

fun dn_flags_clear :: "cint \<Rightarrow> pyobj \<Rightarrow> bool" where
  "dn_flags_clear m (PyList rdns) = list_all (rdn_flags_clear m) rdns"
| "dn_flags_clear m other = False"

text \<open>
  The triple expected for an AVA of the engine, when both converters succeed, and the
  number of fallible interpreter requests the result for a DN takes.
\<close>

definition expected_ava :: "libs \<Rightarrow> LDAPAVA \<Rightarrow> pyobj option" where
  "expected_ava L ava =
     (case LDAPberval_to_unicode_object L (la_attr ava) of
        Inl e \<Rightarrow> None
      | Inr a \<Rightarrow>
          (case LDAPberval_to_unicode_object L (la_value ava) of
             Inl e \<Rightarrow> None
           | Inr v \<Rightarrow> Some (PyTuple [a, v, PyLong (sint (public_flags L (la_flags ava)))])))"

definition expected_rdn :: "libs \<Rightarrow> LDAPRDN \<Rightarrow> pyobj option" where
  "expected_rdn L rdn = map_option PyList (those (map (expected_ava L) rdn))"

definition requests :: "LDAPDN \<Rightarrow> nat" where
  "requests dn = 1 + sum_list (map (\<lambda>rdn. 2 + 2 * length rdn) dn)"

section \<open>Properties of \<open>l_ldap_str2dn\<close>\<close>

lemma mask_cleared: "(f AND NOT m) AND m = (0 :: 'a::len word)"
  by (simp add: and.assoc)

lemma public_flags_clear:
  "public_flags L f AND (LDAP_AVA_FREE_ATTR L OR LDAP_AVA_FREE_VALUE L) = 0"
  unfolding public_flags_def by (rule mask_cleared)

lemma BuildValue_clear:
  "Py_BuildValue_ava L ava b = Inr (t, b') \<Longrightarrow>
   ava_flags_clear (LDAP_AVA_FREE_ATTR L OR LDAP_AVA_FREE_VALUE L) t"
  by (auto simp: Py_BuildValue_ava_def public_flags_clear split: sum.splits option.splits)

text \<open>Both loops only ever append cleared entries to what they were given.\<close>

lemma str2dn_avas_clear:
  "str2dn_avas L rdn acc b = Inr (acc', b') \<Longrightarrow>
   list_all (ava_flags_clear (LDAP_AVA_FREE_ATTR L OR LDAP_AVA_FREE_VALUE L)) acc \<Longrightarrow>
   list_all (ava_flags_clear (LDAP_AVA_FREE_ATTR L OR LDAP_AVA_FREE_VALUE L)) acc'"
proof (induction rdn arbitrary: acc b)
  case Nil
  then show ?case by simp
next
  case (Cons ava rdn)
  then show ?case
    by (auto simp: PyList_Append_def
        split: sum.splits option.splits prod.splits dest: BuildValue_clear)
qed

lemma str2dn_rdns_clear:
  "str2dn_rdns L dn acc b = Inr (acc', b') \<Longrightarrow>
   list_all (rdn_flags_clear (LDAP_AVA_FREE_ATTR L OR LDAP_AVA_FREE_VALUE L)) acc \<Longrightarrow>
   list_all (rdn_flags_clear (LDAP_AVA_FREE_ATTR L OR LDAP_AVA_FREE_VALUE L)) acc'"
proof (induction dn arbitrary: acc b)
  case Nil
  then show ?case by simp
next
  case (Cons rdn dn)
  then show ?case
    by (auto simp: PyList_New_def PyList_Append_def
        split: sum.splits option.splits prod.splits dest!: str2dn_avas_clear)
qed

text \<open>
  C3.  Whatever the engine and whatever flags it leaves in its AVAs: when \<open>l_ldap_str2dn\<close>
  returns a value, that value is a list of lists of triples, and the integer in every
  triple has neither the owns-attr-buffer nor the owns-value-buffer bit set.  The bits
  that remain are the engine's other bits, unchanged (\<open>public_flags\<close>).
\<close>

theorem str2dn_flag_hygiene:
  "l_ldap_str2dn L budget args = Return v \<Longrightarrow>
   dn_flags_clear (LDAP_AVA_FREE_ATTR L OR LDAP_AVA_FREE_VALUE L) v"
  by (auto simp: l_ldap_str2dn_def PyList_New_def
      split: sum.splits option.splits prod.splits dest!: str2dn_rdns_clear)

text \<open>An engine that hands out \<open>cn=x\<close> with flags \<open>0x31\<close>: the caller sees 1.\<close>

theorem str2dn_flag_hygiene_witness:
  "l_ldap_str2dn marked_libs 5 [PyUnicode ''cn=x''] =
     Return (PyList [PyList [PyTuple [PyUnicode ''cn'', PyUnicode ''x'', PyLong 1]]]) \<and>
   dn_flags_clear (LDAP_AVA_FREE_ATTR marked_libs OR LDAP_AVA_FREE_VALUE marked_libs)
     (PyList [PyList [PyTuple [PyUnicode ''cn'', PyUnicode ''x'', PyLong 1]]])"
proof -
  have run: "l_ldap_str2dn marked_libs 5 [PyUnicode ''cn=x''] =
     Return (PyList [PyList [PyTuple [PyUnicode ''cn'', PyUnicode ''x'', PyLong 1]]])"
    by code_simp
  from run str2dn_flag_hygiene [OF run] show ?thesis by simp
qed

text \<open>
  C10.  The format string of \<open>l_ldap_str2dn\<close> makes the flags optional with 0 as the value
  kept when they are absent: a call with the text alone ends exactly as the call with
  the text and 0, for every engine, every first argument and every amount of memory.
  The format string of \<open>l_ldap_dn2str\<close> has no optional part: a call with the structure
  alone is refused while the arguments are parsed.
\<close>

theorem flags_optional_for_str2dn_only:
  "l_ldap_str2dn L budget [s] = l_ldap_str2dn L budget [s, PyLong 0] \<and>
   outcome (l_ldap_dn2str L budget [d]) = Raise (ArgumentError ''dn2str'')"
  by (cases s) (simp_all add: l_ldap_str2dn_def l_ldap_dn2str_def)

text \<open>
  A failing engine call is reported with the engine's code, before any list is built.
\<close>

lemma str2dn_engine_failure:
  "PyArg_ParseTuple_str2dn args = Inr (str, flags) \<Longrightarrow> ldap_bv2dn L str flags = Inl res \<Longrightarrow>
   l_ldap_str2dn L budget args = Raise (LDAPerr res)"
  by (simp add: l_ldap_str2dn_def)

text \<open>
  With memory for every request and converters that succeed, the loops hand back the
  engine's structure entry by entry, in the engine's order.
\<close>

lemma str2dn_avas_enough:
  "those (map (expected_ava L) rdn) = Some ts \<Longrightarrow> 2 * length rdn \<le> b \<Longrightarrow>
   str2dn_avas L rdn acc b = Inr (acc @ ts, b - 2 * length rdn)"
proof (induction rdn arbitrary: ts acc b)
  case Nil
  then show ?case by simp
next
  case (Cons ava rdn)
  from Cons.prems(1) obtain t ts' where
    t: "expected_ava L ava = Some t" and ts': "those (map (expected_ava L) rdn) = Some ts'"
    and ts: "ts = t # ts'"
    by (auto split: option.splits)
  from Cons.prems(2) have b: "2 \<le> b" "2 * length rdn \<le> b - 2" by simp_all
  from t b(1) have "Py_BuildValue_ava L ava b = Inr (t, b - 1)"
    by (auto simp: expected_ava_def Py_BuildValue_ava_def py_alloc_def split: sum.splits)
  moreover from b(1) have "PyList_Append acc t (b - 1) = Some (acc @ [t], b - 2)"
    by (simp add: PyList_Append_def py_alloc_def)
  ultimately show ?case
    using Cons.IH [OF ts' b(2), of "acc @ [t]"] ts by simp
qed

lemma str2dn_rdns_enough:
  "those (map (expected_rdn L) dn) = Some rs \<Longrightarrow>
   sum_list (map (\<lambda>rdn. 2 + 2 * length rdn) dn) \<le> b \<Longrightarrow>
   str2dn_rdns L dn acc b = Inr (acc @ rs, b - sum_list (map (\<lambda>rdn. 2 + 2 * length rdn) dn))"
proof (induction dn arbitrary: rs acc b)
  case Nil
  then show ?case by simp
next
  case (Cons rdn dn)
  let ?rest = "sum_list (map (\<lambda>rdn. 2 + 2 * length rdn) dn)"
  from Cons.prems(1) obtain r rs' where
    r: "expected_rdn L rdn = Some r" and rs': "those (map (expected_rdn L) dn) = Some rs'"
    and rs0: "rs = r # rs'"
    by (auto split: option.splits)
  from r obtain ts where ts: "those (map (expected_ava L) rdn) = Some ts" and "r = PyList ts"
    by (auto simp: expected_rdn_def)
  with rs0 have rs: "rs = PyList ts # rs'" by simp
  from Cons.prems(2) have b: "2 \<le> b" "2 * length rdn \<le> b - 2" "?rest \<le> b - 2 - 2 * length rdn"
    by simp_all
  from b(1) have "PyList_New b = Some ([], b - 1)"
    by (simp add: PyList_New_def py_alloc_def)
  moreover from b(1) have "PyList_Append acc (PyList []) (b - 1) = Some (acc @ [PyList []], b - 2)"
    by (simp add: PyList_Append_def py_alloc_def)
  moreover have "str2dn_avas L rdn [] (b - 2) = Inr (ts, b - 2 - 2 * length rdn)"
    using str2dn_avas_enough [OF ts b(2), of "[]"] by simp
  ultimately show ?case
    using Cons.IH [OF rs' b(3), of "acc @ [PyList ts]"] rs by simp
qed

lemma str2dn_returns_engine_dn:
  assumes "PyArg_ParseTuple_str2dn args = Inr (str, flags)"
      and "ldap_bv2dn L str flags = Inr (Some dn)"
      and "those (map (expected_rdn L) dn) = Some rs"
      and "requests dn \<le> budget"
  shows "l_ldap_str2dn L budget args = Return (PyList rs)"
proof -
  from assms(4) have b: "1 \<le> budget" "sum_list (map (\<lambda>rdn. 2 + 2 * length rdn) dn) \<le> budget - 1"
    by (simp_all add: requests_def)
  from b(1) have "PyList_New budget = Some ([], budget - 1)"
    by (simp add: PyList_New_def py_alloc_def)
  with assms(1,2) str2dn_rdns_enough [OF assms(3) b(2), of "[]"] show ?thesis
    by (simp add: l_ldap_str2dn_def)
qed

lemma parse_dn_no_type: "parse_dn ''=noattr'' = None"
  by code_simp

lemma parse_dn_trailing_separator: "parse_dn ''a=b,'' = None"
  by code_simp

text \<open>
  C5.  With the engine of the specification, \<open>=noattr\<close> (no attribute type) and \<open>a=b,\<close>
  (a separator with no AVA after it) are both refused: the call returns no value and
  raises the error that carries the engine's code, however much memory there is.
\<close>

theorem str2dn_malformed_rejected:
  "l_ldap_str2dn spec_libs budget [PyUnicode ''=noattr'', PyLong 0] =
     Raise (LDAPerr LDAP_DECODING_ERROR) \<and>
   l_ldap_str2dn spec_libs budget [PyUnicode ''a=b,'', PyLong 0] =
     Raise (LDAPerr LDAP_DECODING_ERROR)"
proof -
  have "ldap_bv2dn spec_libs \<lparr>bv_len = length ''=noattr'', bv_val = Some ''=noattr''\<rparr> 0 =
      Inl LDAP_DECODING_ERROR"
    by (simp add: spec_libs_def spec_bv2dn_def berval_bytes_def parse_dn_no_type)
  moreover
  have "ldap_bv2dn spec_libs \<lparr>bv_len = length ''a=b,'', bv_val = Some ''a=b,''\<rparr> 0 =
      Inl LDAP_DECODING_ERROR"
    by (simp add: spec_libs_def spec_bv2dn_def berval_bytes_def parse_dn_trailing_separator)
  ultimately show ?thesis
    by (simp add: str2dn_engine_failure)
qed


section \<open>Properties of \<open>l_ldap_dn2str\<close>\<close>

subsection \<open>The two loops\<close>

lemma store_fault: "store a i v = Inl u \<Longrightarrow> u = OutOfBoundsWrite"
  by (simp add: store_def split: if_splits)

lemma store_no_null: "store a i v = Inr a' \<Longrightarrow> Null \<notin> set a \<Longrightarrow> Null \<notin> set a'"
  by (auto simp: store_def split: if_splits dest: set_update_subset_insert [THEN subsetD])

lemma is_triple_iff:
  "is_triple x \<longleftrightarrow>
     (\<exists>items. as_tuple x = Some items \<and> \<not> length items < 3 \<and> ava_of_tuple items \<noteq> None)"
  by (induction x rule: is_triple.induct) auto

lemma is_rdn_iff: "is_rdn x \<longleftrightarrow> (\<exists>xs. as_tuple x = Some xs \<and> list_all is_triple xs)"
  by (cases x) auto

text \<open>The only way either loop goes wrong is a store past the end of its array.\<close>

lemma avas_fault: "dn2str_avas xs j rdn lv = (Faulted u, lv') \<Longrightarrow> u = OutOfBoundsWrite"
  by (induction xs j rdn lv rule: dn2str_avas.induct)
     (auto split: option.splits if_splits sum.splits dest: store_fault)

text \<open>The inner loop rejects exactly when some element is not a triple, unless it went
  wrong before reaching that element.\<close>

lemma avas_well_shaped:
  "list_all is_triple xs \<Longrightarrow> fst (dn2str_avas xs j rdn lv) \<noteq> Rejected"
  by (induction xs j rdn lv rule: dn2str_avas.induct)
     (auto simp: is_triple_iff split: option.splits if_splits sum.splits)

lemma avas_malformed:
  "\<not> list_all is_triple xs \<Longrightarrow> fst (dn2str_avas xs j rdn lv) \<noteq> Filled rdn'"
  by (induction xs j rdn lv rule: dn2str_avas.induct)
     (auto simp: is_triple_iff split: option.splits if_splits sum.splits)

lemma rdns_well_shaped:
  "list_all is_rdn items \<Longrightarrow> fst (dn2str_rdns items i dn lv) \<noteq> Rejected"
proof (induction items arbitrary: i dn lv)
  case Nil
  then show ?case by simp
next
  case (Cons inext rest)
  from Cons.prems obtain iiter where it: "as_tuple inext = Some iiter" "list_all is_triple iiter"
    by (auto simp: is_rdn_iff)
  from Cons.prems have rest: "list_all is_rdn rest" by simp
  obtain q l where run: "dn2str_avas iiter 0 malloc_one_pointer (lv @ [RDN_array]) = (q, l)"
    by fastforce
  with avas_well_shaped [OF it(2), of 0 malloc_one_pointer "lv @ [RDN_array]"]
  have "q \<noteq> Rejected" by simp
  with it run Cons.IH [OF rest] show ?case
    by (cases q) (auto split: sum.splits)
qed

text \<open>
  On a list with an element that is not an RDN the outer loop either rejects, having
  taken from the iterator everything up to and including that element, or has already
  stored past the end of an array.
\<close>

lemma rdns_malformed:
  "\<not> list_all is_rdn items \<Longrightarrow> dn2str_rdns items i dn lv = (p, lv', rest) \<Longrightarrow>
   (p = Rejected \<and> rest = tl (dropWhile is_rdn items)) \<or> p = Faulted OutOfBoundsWrite"
proof (induction items i dn lv rule: dn2str_rdns.induct)
  case (1 i dn lv)
  then show ?case by simp
next
  case (2 inext rest' i dn lv)
  show ?case
  proof (cases "as_tuple inext")
    case None
    then have "\<not> is_rdn inext" by (simp add: is_rdn_iff)
    with None 2(3) show ?thesis by simp
  next
    case (Some iiter)
    obtain q l where run: "dn2str_avas iiter 0 malloc_one_pointer (lv @ [RDN_array]) = (q, l)"
      by fastforce
    show ?thesis
    proof (cases q)
      case (Filled rdn)
      with run have "list_all is_triple iiter"
        using avas_malformed [of iiter 0 malloc_one_pointer "lv @ [RDN_array]" rdn] by auto
      with Some have "is_rdn inext" by (auto simp: is_rdn_iff)
      with 2 Some run Filled show ?thesis
        by (auto split: sum.splits dest: store_fault)
    next
      case Rejected
      with run have "\<not> list_all is_triple iiter"
        using avas_well_shaped [of iiter 0 malloc_one_pointer "lv @ [RDN_array]"] by auto
      with Some have "\<not> is_rdn inext" by (auto simp: is_rdn_iff)
      with 2(3) Some run Rejected show ?thesis by auto
    next
      case (Faulted u)
      with run have "u = OutOfBoundsWrite" by (auto dest: avas_fault)
      with 2(3) Some run Faulted show ?thesis by auto
    qed
  qed
qed

subsection \<open>What the engine is handed\<close>

text \<open>Neither loop stores \<open>NULL\<close>, and no statement between the loops and line 260 does.\<close>

lemma rdns_no_null:
  "dn2str_rdns items i dn lv = (Filled dn', lv', rest) \<Longrightarrow> Null \<notin> set dn \<Longrightarrow> Null \<notin> set dn'"
proof (induction items arbitrary: i dn lv)
  case Nil
  then show ?case by simp
next
  case (Cons inext items)
  from Cons.prems show ?case
    by (auto split: option.splits sum.splits prod.splits progress.splits
        dest: store_no_null Cons.IH)
qed

lemma read_unterminated: "Null \<notin> set dn \<Longrightarrow> \<exists>u. read_dn dn = Inl u"
  by (induction dn rule: read_dn.induct) (auto split: sum.splits)

text \<open>
  So the arrays handed to \<open>ldap_dn2bv\<close> are never terminated: a walk over them leaves
  the allocated and initialised memory.  With an engine that answers a text only after
  such a walk, no call of \<open>l_ldap_dn2str\<close> returns a string, whatever the arguments.
  Both engines of this theory are of that kind.
\<close>

lemma dn2str_never_returns:
  assumes walked: "\<And>dn flags str. ldap_dn2bv L dn flags = Inr (Inr str) \<Longrightarrow> \<exists>d. read_dn dn = Inr d"
  shows "outcome (l_ldap_dn2str L budget args) \<noteq> Return s"
proof -
  have start: "Null \<notin> set (malloc_one_pointer :: dn_array)"
    by (simp add: malloc_one_pointer_def)
  have "ldap_dn2bv L dn flags \<noteq> Inr (Inr str)"
    if "dn2str_rdns items 0 malloc_one_pointer [DN_array] = (Filled dn, lv, rest)"
    for items dn lv rest flags str
    using read_unterminated [OF rdns_no_null [OF that start]] walked [of dn flags str] by auto
  then show ?thesis
    by (auto simp: l_ldap_dn2str_def after_dn2bv_def
        split: sum.splits option.splits prod.splits progress.splits)
qed

lemma spec_dn2bv_walked: "spec_dn2bv dn flags = Inr (Inr str) \<Longrightarrow> \<exists>d. read_dn dn = Inr d"
  by (auto simp: spec_dn2bv_def split: sum.splits)

lemma strict_dn2bv_walked: "strict_dn2bv dn flags = Inr (Inr str) \<Longrightarrow> \<exists>d. read_dn dn = Inr d"
  by (cases dn rule: read_dn.cases)
     (auto simp: strict_dn2bv_def dest: spec_dn2bv_walked split: if_splits)

lemma dn2str_spec_never_returns: "outcome (l_ldap_dn2str spec_libs budget args) \<noteq> Return s"
  by (rule dn2str_never_returns) (simp add: spec_libs_def spec_dn2bv_walked)

lemma dn2str_strict_never_returns: "outcome (l_ldap_dn2str strict_libs budget args) \<noteq> Return s"
  by (rule dn2str_never_returns) (simp add: strict_libs_def spec_libs_def strict_dn2bv_walked)

text \<open>
  C1.  The round trip needs \<open>build\<close> to yield a string.  For the DN with the single AVA
  \<open>(a, b, 1)\<close> and the flag value 16 the call stores \<open>rdn[0]\<close> and \<open>dn[0]\<close> and hands \<open>dn\<close>
  to the engine with no \<open>NULL\<close> behind either entry; the engine's answer on these two
  one-slot arrays is the fate of the call.  An engine that walks them reads past the
  one-slot block: there is no string to parse back.
\<close>

theorem dn2str_single_ava_unterminated:
  "outcome (l_ldap_dn2str L budget
      [PyList [PyList [PyTuple [PyUnicode ''a'', PyUnicode ''b'', PyLong 1]]], PyLong 16]) =
     after_dn2bv (ldap_dn2bv L
       [Ptr [Ptr \<lparr>la_attr = berval_of_unicode ''a'', la_value = berval_of_unicode ''b'',
                  la_flags = int_of_PyLong 1\<rparr>]] 16) budget \<and>
   outcome (l_ldap_dn2str spec_libs budget
      [PyList [PyList [PyTuple [PyUnicode ''a'', PyUnicode ''b'', PyLong 1]]], PyLong 16]) =
     Undefined OutOfBoundsRead None \<and>
   outcome (l_ldap_dn2str strict_libs budget
      [PyList [PyList [PyTuple [PyUnicode ''a'', PyUnicode ''b'', PyLong 1]]], PyLong 16]) =
     Undefined OutOfBoundsRead None"
  by (simp add: l_ldap_dn2str_def malloc_one_pointer_def store_def after_dn2bv_def
      spec_libs_def strict_libs_def spec_dn2bv_def strict_dn2bv_def)

text \<open>
  C4.  For the empty list and flags 0 the outer loop does not run and the engine is
  handed the block as \<open>malloc\<close> left it; the engine's answer on that indeterminate entry
  is the fate of the call.  An engine that looks at the first entry reads what was
  never written: the call does not come back with the empty string.
\<close>

theorem dn2str_empty_list_uninitialised:
  "outcome (l_ldap_dn2str L budget [PyList [], PyLong 0]) =
     after_dn2bv (ldap_dn2bv L [Uninit] 0) budget \<and>
   outcome (l_ldap_dn2str spec_libs budget [PyList [], PyLong 0]) =
     Undefined UninitialisedRead None \<and>
   outcome (l_ldap_dn2str strict_libs budget [PyList [], PyLong 0]) =
     Undefined UninitialisedRead None"
  by (simp add: l_ldap_dn2str_def malloc_one_pointer_def after_dn2bv_def
      spec_libs_def strict_libs_def spec_dn2bv_def strict_dn2bv_def)

text \<open>
  The parser half of the empty DN, with the engine of the specification and memory for
  one list; and what line 118 does when an engine hands back the \<open>NULL\<close> pointer for a
  DN it parsed.
\<close>

lemma str2dn_empty_text: "l_ldap_str2dn spec_libs (1 + k) [PyUnicode [], PyLong 0] = Return (PyList [])"
  by (simp add: l_ldap_str2dn_def spec_libs_def spec_bv2dn_def parse_dn_def berval_bytes_def
      PyList_New_def py_alloc_def)

lemma str2dn_null_dn:
  "PyArg_ParseTuple_str2dn args = Inr (str, flags) \<Longrightarrow> ldap_bv2dn L str flags = Inr None \<Longrightarrow>
   l_ldap_str2dn L (Suc budget) args = Undefined NullDereference None"
  by (simp add: l_ldap_str2dn_def PyList_New_def py_alloc_def)

text \<open>
  The return of lines 261 and 262: the stricter engine refuses the flag value 0 for a DN
  that is not empty, and the call raises the error with the engine's code.
\<close>

lemma dn2str_format_refused:
  "outcome (l_ldap_dn2str strict_libs budget
      [PyList [PyList [PyTuple [PyUnicode ''a'', PyUnicode ''b'', PyLong 1]]], PyLong 0]) =
     Raise (LDAPerr (- 9))"
  by (simp add: l_ldap_dn2str_def malloc_one_pointer_def store_def after_dn2bv_def
      spec_libs_def strict_libs_def strict_dn2bv_def)

subsection \<open>Blocks in use at exit\<close>

text \<open>
  No block is ever handed back: the loops only add to the blocks in use, and the array
  of the DN, allocated before the arguments are even parsed, is in use at every exit.
\<close>

lemma avas_keep_blocks: "\<exists>more. snd (dn2str_avas xs j rdn lv) = lv @ more"
proof (induction xs arbitrary: j rdn lv)
  case Nil
  then show ?case by simp
next
  case (Cons x xs)
  from Cons.IH show ?case
    by (auto split: option.splits sum.splits) (metis append.assoc)
qed

lemma rdns_keep_blocks: "\<exists>more. fst (snd (dn2str_rdns items i dn lv)) = lv @ more"
proof (induction items arbitrary: i dn lv)
  case Nil
  then show ?case by simp
next
  case (Cons x items)
  show ?case
  proof (cases "as_tuple x")
    case None
    then show ?thesis by simp
  next
    case (Some iiter)
    obtain q l where run: "dn2str_avas iiter 0 malloc_one_pointer (lv @ [RDN_array]) = (q, l)"
      by fastforce
    with avas_keep_blocks [of iiter 0 malloc_one_pointer "lv @ [RDN_array]"]
    obtain more where l: "l = lv @ RDN_array # more" by auto
    show ?thesis
    proof (cases q)
      case (Filled r)
      show ?thesis
      proof (cases "store dn i r")
        case (Inl u)
        with Some run Filled l show ?thesis by simp
      next
        case (Inr dn')
        from Cons.IH [of "Suc i" dn' l] obtain more' where
          "fst (snd (dn2str_rdns items (Suc i) dn' l)) = l @ more'" by blast
        with Some run Filled Inr l show ?thesis by simp
      qed
    next
      case Rejected
      with Some run l show ?thesis by simp
    next
      case (Faulted u)
      with Some run l show ?thesis by simp
    qed
  qed
qed


lemma dn2str_frees_nothing: "\<exists>more. live (l_ldap_dn2str L budget args) = DN_array # more"
  using rdns_keep_blocks [of _ 0 malloc_one_pointer "[DN_array]"]
  by (auto simp: l_ldap_dn2str_def split: sum.splits option.splits prod.splits progress.splits)
     (metis fst_conv snd_conv)+

text \<open>
  C8.  An RDN whose first element is a good triple and whose second is the integer 7:
  the call takes the shape-failure exit with the \<open>TypeError\<close> set, and the array of the DN,
  the array of the RDN and the AVA it allocated are all still allocated; the function
  has no call to \<open>free\<close>.
\<close>

theorem dn2str_leaks_on_shape_failure:
  "live (l_ldap_dn2str L budget
      [PyList [PyList [PyTuple [PyUnicode ''a'', PyUnicode ''b'', PyLong 1], PyLong 7]],
       PyLong 0]) = [DN_array, RDN_array, AVA_struct] \<and>
   raised (outcome (l_ldap_dn2str L budget
      [PyList [PyList [PyTuple [PyUnicode ''a'', PyUnicode ''b'', PyLong 1], PyLong 7]],
       PyLong 0])) = Some (TypeError type_error_message)"
  by (simp add: l_ldap_dn2str_def malloc_one_pointer_def store_def)

subsection \<open>Shape validation\<close>

text \<open>
  C2.  A bare string as the structure, and a triple without its flags: for both the
  source sets the \<open>TypeError\<close> with the text \<open>expected List[Tuple[str, str, int]]\<close> and
  jumps to \<open>failed\<close>, where \<open>Py_XDECREF(tmp)\<close> reads \<open>tmp\<close>, which has no value on this
  path.  The call does not end as a call that raised the \<open>TypeError\<close>; it ends in
  undefined behaviour with that exception pending, for every engine.
\<close>

theorem dn2str_shape_error_undefined:
  "outcome (l_ldap_dn2str L budget [PyUnicode ''not-a-sequence'', PyLong 0]) =
     Undefined UninitialisedRead (Some (TypeError type_error_message)) \<and>
   outcome (l_ldap_dn2str L budget
      [PyList [PyList [PyTuple [PyUnicode ''a'', PyUnicode ''b'']]], PyLong 0]) =
     Undefined UninitialisedRead (Some (TypeError type_error_message))"
  by (simp add: l_ldap_dn2str_def malloc_one_pointer_def)

text \<open>
  The same holds of every structure of the wrong shape, unless a store past the end of
  a working array came first.
\<close>

lemma dn2str_malformed_undefined:
  assumes args: "PyArg_ParseTuple_dn2str args = Inr (dn_list, flags)"
      and bad: "\<not> well_shaped dn_list"
  shows "outcome (l_ldap_dn2str L budget args) =
           Undefined UninitialisedRead (Some (TypeError type_error_message)) \<or>
         outcome (l_ldap_dn2str L budget args) = Undefined OutOfBoundsWrite None"
proof (cases "PyObject_GetIter dn_list")
  case None
  with args show ?thesis by (simp add: l_ldap_dn2str_def)
next
  case (Some items)
  with bad have items: "\<not> list_all is_rdn items" by (simp add: well_shaped_def)
  obtain p lv rest where run: "dn2str_rdns items 0 malloc_one_pointer [DN_array] = (p, lv, rest)"
    using prod_cases3 by blast
  from rdns_malformed [OF items run] args Some run show ?thesis
    by (auto simp: l_ldap_dn2str_def)
qed

text \<open>
  Validation runs while the structure is iterated: a one-shot iterator that yields the
  integer 5 and then an empty list comes back without the 5.
\<close>

lemma dn2str_consumes_iterator:
  "\<not> well_shaped (PyIterator [PyLong 5, PyList []]) \<and>
   args_after (l_ldap_dn2str L budget [PyIterator [PyLong 5, PyList []], PyLong 0]) =
     [PyIterator [PyList []], PyLong 0]"
  by (simp add: well_shaped_def l_ldap_dn2str_def)

subsection \<open>Loose input\<close>

text \<open>Cutting every triple down to its first three items changes nothing in a call.\<close>

lemma ava_of_tuple_take: "\<not> length items < 3 \<Longrightarrow> ava_of_tuple (take 3 items) = ava_of_tuple items"
  by (induction items rule: ava_of_tuple.induct) simp_all

lemma as_tuple_trim: "as_tuple (trim_triple x) = map_option (take 3) (as_tuple x)"
  by (cases x) simp_all

lemma avas_trim: "dn2str_avas (map trim_triple xs) j rdn lv = dn2str_avas xs j rdn lv"
proof (induction xs arbitrary: j rdn lv)
  case Nil
  then show ?case by simp
next
  case (Cons x xs)
  show ?case
  proof (cases "as_tuple x")
    case None
    then show ?thesis by (simp add: as_tuple_trim)
  next
    case (Some items)
    then show ?thesis
      by (cases "length items < 3")
         (auto simp: as_tuple_trim ava_of_tuple_take Cons.IH min_def split: option.splits sum.splits)
  qed
qed

lemma as_tuple_trim_rdn: "as_tuple (trim_rdn x) = map_option (map trim_triple) (as_tuple x)"
  by (cases x) simp_all

lemma rdns_trim:
  "dn2str_rdns (map trim_rdn items) i dn lv =
     (case dn2str_rdns items i dn lv of (p, l, rest) \<Rightarrow> (p, l, map trim_rdn rest))"
proof (induction items arbitrary: i dn lv)
  case Nil
  then show ?case by simp
next
  case (Cons x items)
  show ?case
    by (cases "as_tuple x")
       (auto simp: as_tuple_trim_rdn avas_trim Cons.IH
          split: option.splits sum.splits prod.splits progress.splits)
qed

lemma GetIter_trim: "PyObject_GetIter (trim_dn d) = map_option (map trim_rdn) (PyObject_GetIter d)"
  by (cases d) (simp_all add: comp_def)


lemma dn2str_trim:
  "outcome (l_ldap_dn2str L budget [trim_dn d, f]) = outcome (l_ldap_dn2str L budget [d, f]) \<and>
   live (l_ldap_dn2str L budget [trim_dn d, f]) = live (l_ldap_dn2str L budget [d, f])"
  by (cases "PyObject_GetIter d")
     (auto simp: l_ldap_dn2str_def GetIter_trim rdns_trim
        split: sum.splits prod.splits progress.splits)

text \<open>
  C6, as the code has it.  Let the structure be any iterable (a list, a tuple, a
  one-shot iterator) whose elements are lists or tuples, each holding lists or tuples
  that start with a string, a string and an integer.  Then no \<open>TypeError\<close> is set, and
  the call ends as it does on the structure with every triple cut to its first three
  items.  When the structure is one RDN with one triple, the engine is called with one
  AVA made of the first three items, and the engine's answer is the fate of the call.
\<close>

theorem dn2str_accepts_loose_input:
  assumes args: "PyArg_ParseTuple_dn2str [dn_list, f] = Inr (dn_list, flags)"
      and shaped: "well_shaped dn_list"
  shows "(\<forall>msg. raised (outcome (l_ldap_dn2str L budget [dn_list, f])) \<noteq> Some (TypeError msg)) \<and>
         outcome (l_ldap_dn2str L budget [trim_dn dn_list, f]) =
           outcome (l_ldap_dn2str L budget [dn_list, f]) \<and>
         (\<forall>rdn triple t v e extra.
            PyObject_GetIter dn_list = Some [rdn] \<and> as_tuple rdn = Some [triple] \<and>
            as_tuple triple = Some (PyUnicode t # PyUnicode v # PyLong e # extra) \<longrightarrow>
            outcome (l_ldap_dn2str L budget [dn_list, f]) =
              after_dn2bv (ldap_dn2bv L
                [Ptr [Ptr \<lparr>la_attr = berval_of_unicode t, la_value = berval_of_unicode v,
                           la_flags = int_of_PyLong e\<rparr>]] flags) budget)"
proof -
  from shaped obtain items where it: "PyObject_GetIter dn_list = Some items" "list_all is_rdn items"
    by (auto simp: well_shaped_def split: option.splits)
  obtain p lv rest where run: "dn2str_rdns items 0 malloc_one_pointer [DN_array] = (p, lv, rest)"
    using prod_cases3 by blast
  with rdns_well_shaped [OF it(2), of 0 malloc_one_pointer "[DN_array]"]
  have "p \<noteq> Rejected" by simp
  with args it run
  have no_type_error:
    "raised (outcome (l_ldap_dn2str L budget [dn_list, f])) \<noteq> Some (TypeError msg)" for msg
    by (cases p)
       (auto simp: l_ldap_dn2str_def after_dn2bv_def LDAPerr_def split: sum.splits option.splits)
  have single: "outcome (l_ldap_dn2str L budget [dn_list, f]) =
      after_dn2bv (ldap_dn2bv L
        [Ptr [Ptr \<lparr>la_attr = berval_of_unicode t, la_value = berval_of_unicode v,
                   la_flags = int_of_PyLong e\<rparr>]] flags) budget"
    if "PyObject_GetIter dn_list = Some [rdn]" "as_tuple rdn = Some [triple]"
       "as_tuple triple = Some (PyUnicode t # PyUnicode v # PyLong e # extra)"
    for rdn triple t v e extra
    using that args by (simp add: l_ldap_dn2str_def malloc_one_pointer_def store_def)
  from no_type_error single show ?thesis
    by (simp add: dn2str_trim)
qed

text \<open>
  A generator yielding one RDN, a list holding one triple, a list of four items, with
  the stricter engine and flags 0: the structure passes and the engine refuses the
  flag value.
\<close>

theorem dn2str_accepts_loose_input_witness:
  "well_shaped (PyIterator [PyList [PyList [PyUnicode ''cn'', PyUnicode ''x'', PyLong 1, PyFloat]]]) \<and>
   outcome (l_ldap_dn2str strict_libs 0
      [PyIterator [PyList [PyList [PyUnicode ''cn'', PyUnicode ''x'', PyLong 1, PyFloat]]],
       PyLong 0]) = Raise (LDAPError (- 9)) \<and>
   outcome (l_ldap_dn2str strict_libs 0
      [PyIterator [PyList [PyList [PyUnicode ''cn'', PyUnicode ''x'', PyLong 1]]], PyLong 0]) =
     Raise (LDAPError (- 9))"
proof -
  let ?t = "PyList [PyUnicode ''cn'', PyUnicode ''x'', PyLong 1, PyFloat]"
  let ?d = "PyIterator [PyList [?t]]"
  have a: "PyArg_ParseTuple_dn2str [?d, PyLong 0] = Inr (?d, 0)" by simp
  have b: "well_shaped ?d" by (simp add: well_shaped_def)
  have c: "PyObject_GetIter ?d = Some [PyList [?t]] \<and> as_tuple (PyList [?t]) = Some [?t] \<and>
      as_tuple ?t = Some (PyUnicode ''cn'' # PyUnicode ''x'' # PyLong 1 # [PyFloat])"
    by simp
  have d: "after_dn2bv (ldap_dn2bv strict_libs
      [Ptr [Ptr \<lparr>la_attr = berval_of_unicode ''cn'', la_value = berval_of_unicode ''x'',
                 la_flags = int_of_PyLong 1\<rparr>]] 0) 0 = Raise (LDAPError (- 9))"
    by (simp add: strict_libs_def spec_libs_def strict_dn2bv_def after_dn2bv_def LDAPerr_def)
  note inst = dn2str_accepts_loose_input [OF a b, of strict_libs 0]
  from inst c d have "outcome (l_ldap_dn2str strict_libs 0 [?d, PyLong 0]) = Raise (LDAPError (- 9))"
    by metis
  moreover from inst have "outcome (l_ldap_dn2str strict_libs 0 [trim_dn ?d, PyLong 0]) =
      outcome (l_ldap_dn2str strict_libs 0 [?d, PyLong 0])" by blast
  ultimately show ?thesis using b by simp
qed

text \<open>
  The claim as first stated allowed any iterable for an RDN too.  A generator in the
  place of an RDN, yielding a perfect triple, is refused.
\<close>

theorem dn2str_inner_iterator_counterexample:
  "raised (outcome (l_ldap_dn2str spec_libs 1
      [PyList [PyIterator [PyTuple [PyUnicode ''a'', PyUnicode ''b'', PyLong 1]]], PyLong 0])) =
     Some (TypeError type_error_message)"
  by (simp add: l_ldap_dn2str_def)

text \<open>
  C9.  An RDN that is the empty list or the empty tuple, anywhere among RDNs of the right
  shape, passes the checks: no \<open>TypeError\<close> is set.  When it is the only RDN, the array of
  the RDN is allocated, nothing is stored in it, and the engine is called with the DN
  array pointing to it; the engine's answer is the fate of the call.
\<close>

theorem dn2str_accepts_empty_rdn:
  assumes args: "PyArg_ParseTuple_dn2str [dn_list, f] = Inr (dn_list, flags)"
      and items: "PyObject_GetIter dn_list = Some (pre @ e # post)"
      and empty: "e = PyList [] \<or> e = PyTuple []"
      and others: "list_all is_rdn pre" "list_all is_rdn post"
  shows "(\<forall>msg. raised (outcome (l_ldap_dn2str L budget [dn_list, f])) \<noteq> Some (TypeError msg)) \<and>
         (pre = [] \<and> post = [] \<longrightarrow>
            outcome (l_ldap_dn2str L budget [dn_list, f]) =
              after_dn2bv (ldap_dn2bv L [Ptr [Uninit]] flags) budget \<and>
            live (l_ldap_dn2str L budget [dn_list, f]) = [DN_array, RDN_array])"
proof -
  from empty have e: "is_rdn e" by auto
  with others have all: "list_all is_rdn (pre @ e # post)" by simp
  obtain p lv rest where
    run: "dn2str_rdns (pre @ e # post) 0 malloc_one_pointer [DN_array] = (p, lv, rest)"
    using prod_cases3 by blast
  with rdns_well_shaped [OF all, of 0 malloc_one_pointer "[DN_array]"]
  have "p \<noteq> Rejected" by simp
  with args items run
  have "raised (outcome (l_ldap_dn2str L budget [dn_list, f])) \<noteq> Some (TypeError msg)" for msg
    by (cases p)
       (auto simp: l_ldap_dn2str_def after_dn2bv_def LDAPerr_def split: sum.splits option.splits)
  moreover
  have "outcome (l_ldap_dn2str L budget [dn_list, f]) =
          after_dn2bv (ldap_dn2bv L [Ptr [Uninit]] flags) budget \<and>
        live (l_ldap_dn2str L budget [dn_list, f]) = [DN_array, RDN_array]"
    if "pre = []" "post = []"
    using that args items empty
    by (auto simp: l_ldap_dn2str_def malloc_one_pointer_def store_def)
  ultimately show ?thesis by blast
qed

text \<open>The empty tuple as the only RDN, with the stricter engine and flags 0.\<close>

theorem dn2str_accepts_empty_rdn_witness:
  "PyObject_GetIter (PyList [PyTuple []]) = Some ([] @ PyTuple [] # []) \<and>
   outcome (l_ldap_dn2str strict_libs 0 [PyList [PyTuple []], PyLong 0]) = Raise (LDAPError (- 9)) \<and>
   live (l_ldap_dn2str strict_libs 0 [PyList [PyTuple []], PyLong 0]) = [DN_array, RDN_array]"
proof -
  let ?d = "PyList [PyTuple []]"
  have a: "PyArg_ParseTuple_dn2str [?d, PyLong 0] = Inr (?d, 0)" by simp
  have b: "PyObject_GetIter ?d = Some ([] @ PyTuple [] # [])" by simp
  have c: "PyTuple [] = PyList [] \<or> PyTuple [] = PyTuple []" by simp
  have d: "list_all is_rdn []" by simp
  have e: "after_dn2bv (ldap_dn2bv strict_libs [Ptr [Uninit]] 0) 0 = Raise (LDAPError (- 9))"
    by (simp add: strict_libs_def spec_libs_def strict_dn2bv_def after_dn2bv_def LDAPerr_def)
  from dn2str_accepts_empty_rdn [OF a b c d d, of strict_libs 0] e b show ?thesis
    by simp
qed

end
